theory Spec2Isabelle
  imports Complex_Main "HOL-Library.Sublist"
begin

section \<open>Lesson planner: data model\<close>

text \<open>
  The program is one Streamlit script, \<^verbatim>\<open>Chatbot.py\<close>. Its state is the pair
  \<^verbatim>\<open>st.session_state.generated_plan\<close> and \<^verbatim>\<open>st.session_state.chat_history\<close>; every
  user interaction runs \<^verbatim>\<open>main()\<close> once more on that state. The hosted completion
  service is outside the program: it is a parameter of every definition below.

  Python strings are modelled as \<^typ>\<open>string\<close>; a text outside ASCII is its UTF-8 bytes.
\<close>

datatype role = System | User | Assistant

text \<open>
  A message is the dictionary \<^verbatim>\<open>{"role": ..., "content": ...}\<close>. The content of a history
  entry is whatever \<^verbatim>\<open>refine_lesson_plan_with_openai\<close> returned, so it can be \<^verbatim>\<open>None\<close>.
\<close>

record message =
  role :: role
  content :: "string option"

text \<open>The keyword arguments of \<^verbatim>\<open>client.chat.completions.create\<close>.\<close>

record completion_request =
  model :: string
  messages :: "message list"
  temperature :: rat
  max_tokens :: int

text \<open>
  What one call of the service does: it returns a response whose
  \<^verbatim>\<open>choices[0].message.content\<close> is a text or \<^verbatim>\<open>None\<close>, or an exception \<^verbatim>\<open>e\<close> is raised
  (by the transport or by reading the response); \<^verbatim>\<open>Raised\<close> carries \<^verbatim>\<open>str(e)\<close>.
\<close>

datatype completion_outcome = Returned "string option" | Raised string

type_synonym completion_client = "completion_request \<Rightarrow> completion_outcome"

text \<open>What the script shows through \<^verbatim>\<open>st.warning\<close>, \<^verbatim>\<open>st.error\<close> and \<^verbatim>\<open>st.success\<close>.\<close>

datatype display = Warning string | Error string | Success string

text \<open>The effects of one function call: its return value, the requests sent, the messages shown.\<close>

record 'a effects =
  returned :: 'a
  calls :: "completion_request list"
  shown :: "display list"

subsection \<open>Python values\<close>

text \<open>Truth value of a string and of an optional string (\<^verbatim>\<open>if s:\<close>).\<close>

definition truthy :: "string \<Rightarrow> bool" where
  "truthy s = (s \<noteq> [])"

fun truthy_opt :: "string option \<Rightarrow> bool" where
  "truthy_opt None = False"
| "truthy_opt (Some s) = truthy s"

text \<open>\<^verbatim>\<open>str(n)\<close> of an integer: decimal digits, a minus sign when negative.\<close>

definition digit_char :: "nat \<Rightarrow> char" where
  "digit_char d = char_of (48 + d)"

fun str_nat :: "nat \<Rightarrow> string" where
  "str_nat n = (if n < 10 then [digit_char n] else str_nat (n div 10) @ [digit_char (n mod 10)])"

definition str_int :: "int \<Rightarrow> string" where
  "str_int i = (if i < 0 then CHR ''-'' # str_nat (nat (- i)) else str_nat (nat i))"

section \<open>Prompt construction\<close>

definition nl :: string where
  "nl = [CHR 0x0A]"

definition dquote :: string where
  "dquote = [CHR 0x22]"

definition system_educator :: string where
  "system_educator = ''You are an experienced educator with expertise in lesson planning.''"

text \<open>The f-string of \<^verbatim>\<open>generate_lesson_plan_with_openai\<close>, line by line.\<close>

definition generation_prompt ::
  "string \<Rightarrow> string \<Rightarrow> int \<Rightarrow> string \<Rightarrow> string \<Rightarrow> string \<Rightarrow> string" where
  "generation_prompt enquiry_question year_group num_lessons objectives active_learning adaptive_practices =
     nl @ ''    As an expert educator, create a detailed lesson plan for primary school children in ''
        @ year_group @ ''.''
   @ nl @ ''    Design a sequence of '' @ str_int num_lessons
        @ '' lessons to address the enquiry question: '' @ dquote @ enquiry_question @ dquote @ ''.''
   @ nl @ ''    The lesson order has to be sequential, in order to build on the understanding of previous lessons.''
   @ nl @ ''    ''
   @ nl @ ''    Key Requirements:''
   @ nl @ ''    1. Use Bloom's Taxonomy for learning objectives''
   @ nl @ ''    2. Include active learning components''
   @ nl @ ''    3. Incorporate adaptive teaching strategies''
   @ nl @ ''    4. Ensure progression across lessons''
   @ nl @ ''    ''
   @ nl @ ''    Specific Inputs:''
   @ nl @ ''    - Learning Objectives: '' @ objectives
   @ nl @ ''    - Active Learning Activities: '' @ active_learning
   @ nl @ ''    - Adaptive Teaching Practices: '' @ adaptive_practices
   @ nl @ ''    ''
   @ nl @ ''    For each lesson, provide:''
   @ nl @ ''    1. Lesson Title & Learning Objective''
   @ nl @ ''    2. Key Vocabulary''
   @ nl @ ''    3. Main Activities (including timings)''
   @ nl @ ''    4. Differentiation Strategies''
   @ nl @ ''    5. Assessment Opportunities''
   @ nl @ ''    6. Resources Needed''
   @ nl @ ''    7. Home Learning Extensions''
   @ nl @ ''    ''
   @ nl @ ''    Format the output using markdown for clear structure.''
   @ nl @ ''    ''"

text \<open>The f-string of \<^verbatim>\<open>refine_lesson_plan_with_openai\<close>.\<close>

definition refinement_prompt :: "string \<Rightarrow> string \<Rightarrow> string" where
  "refinement_prompt base_plan user_comments =
     nl @ ''    You are an expert educator. Refine the following lesson plan based on the user's comments.''
   @ nl @ ''    ''
   @ nl @ ''    Base Lesson Plan:''
   @ nl @ ''    '' @ base_plan
   @ nl @ ''    ''
   @ nl @ ''    User Comments:''
   @ nl @ ''    '' @ user_comments
   @ nl @ ''    ''
   @ nl @ ''    Provide a revised lesson plan incorporating the user's feedback.''
   @ nl @ ''    ''"

definition system_chat :: string where
  "system_chat = ''You are an expert educator helping to refine and improve lesson plans. Provide specific, actionable suggestions and be ready to modify the plan based on teacher requests.''"

section \<open>The three completion calls\<close>

definition generation_request ::
  "string \<Rightarrow> string \<Rightarrow> int \<Rightarrow> string \<Rightarrow> string \<Rightarrow> string \<Rightarrow> completion_request" where
  "generation_request enquiry_question year_group num_lessons objectives active_learning adaptive_practices =
     \<lparr>model = ''gpt-4-turbo-preview'',
      messages = [\<lparr>role = System, content = Some system_educator\<rparr>,
                  \<lparr>role = User, content = Some (generation_prompt enquiry_question year_group
                     num_lessons objectives active_learning adaptive_practices)\<rparr>],
      temperature = 0.7,
      max_tokens = 4000\<rparr>"

text \<open>
  \<^verbatim>\<open>generate_lesson_plan_with_openai\<close>: one call; an exception is caught, shown with
  \<^verbatim>\<open>st.error\<close>, and the function returns \<^verbatim>\<open>None\<close>.
\<close>

definition generate_lesson_plan_with_openai ::
  "completion_client \<Rightarrow> string \<Rightarrow> string \<Rightarrow> int \<Rightarrow> string \<Rightarrow> string \<Rightarrow> string
    \<Rightarrow> (string option) effects" where
  "generate_lesson_plan_with_openai client enquiry_question year_group num_lessons objectives
      active_learning adaptive_practices =
     (let req = generation_request enquiry_question year_group num_lessons objectives
                  active_learning adaptive_practices
      in case client req of
           Returned c \<Rightarrow> \<lparr>returned = c, calls = [req], shown = []\<rparr>
         | Raised e \<Rightarrow> \<lparr>returned = None, calls = [req],
                        shown = [Error (''Error generating lesson plan: '' @ e)]\<rparr>)"

definition refinement_request :: "string \<Rightarrow> string \<Rightarrow> completion_request" where
  "refinement_request base_plan user_comments =
     \<lparr>model = ''gpt-4-turbo-preview'',
      messages = [\<lparr>role = System, content = Some system_educator\<rparr>,
                  \<lparr>role = User, content = Some (refinement_prompt base_plan user_comments)\<rparr>],
      temperature = 0.7,
      max_tokens = 4000\<rparr>"

text \<open>\<^verbatim>\<open>refine_lesson_plan_with_openai\<close>: the same shape, with its own error text.\<close>

definition refine_lesson_plan_with_openai ::
  "completion_client \<Rightarrow> string \<Rightarrow> string \<Rightarrow> (string option) effects" where
  "refine_lesson_plan_with_openai client base_plan user_comments =
     (let req = refinement_request base_plan user_comments
      in case client req of
           Returned c \<Rightarrow> \<lparr>returned = c, calls = [req], shown = []\<rparr>
         | Raised e \<Rightarrow> \<lparr>returned = None, calls = [req],
                        shown = [Error (''Error refining lesson plan: '' @ e)]\<rparr>)"

definition chat_request :: "message list \<Rightarrow> string \<Rightarrow> completion_request" where
  "chat_request conversation_history user_input =
     \<lparr>model = ''gpt-4-turbo-preview'',
      messages = [\<lparr>role = System, content = Some system_chat\<rparr>] @ conversation_history
                 @ [\<lparr>role = User, content = Some user_input\<rparr>],
      temperature = 0.5,
      max_tokens = 2000\<rparr>"

text \<open>
  \<^verbatim>\<open>get_chat_response\<close>: here the exception's text is the return value and nothing is
  shown. No line of \<^verbatim>\<open>main\<close> calls this function.
\<close>

definition get_chat_response ::
  "completion_client \<Rightarrow> message list \<Rightarrow> string \<Rightarrow> (string option) effects" where
  "get_chat_response client conversation_history user_input =
     (let req = chat_request conversation_history user_input
      in case client req of
           Returned c \<Rightarrow> \<lparr>returned = c, calls = [req], shown = []\<rparr>
         | Raised e \<Rightarrow> \<lparr>returned = Some (''Error getting response: '' @ e), calls = [req],
                        shown = []\<rparr>)"

section \<open>The script\<close>

record session_state =
  generated_plan :: "string option"
  chat_history :: "message list"

text \<open>Lines 156 to 159: what a new session starts with.\<close>

definition initial_session :: session_state where
  "initial_session = \<lparr>generated_plan = None, chat_history = []\<rparr>"

text \<open>The options of the year group select box, and the text each one stands for.\<close>

datatype year_group = Reception | Year_1 | Year_2 | Year_3 | Year_4 | Year_5 | Year_6

fun year_group_label :: "year_group \<Rightarrow> string" where
  "year_group_label Reception = ''Reception''"
| "year_group_label Year_1 = ''Year 1''"
| "year_group_label Year_2 = ''Year 2''"
| "year_group_label Year_3 = ''Year 3''"
| "year_group_label Year_4 = ''Year 4''"
| "year_group_label Year_5 = ''Year 5''"
| "year_group_label Year_6 = ''Year 6''"

datatype button = Generate_Lesson_Plan | Send | Download_Lesson_Plan | Create_New_Plan

text \<open>
  The widget values one run of the script reads. Streamlit reports at most one button
  as pressed in a run. A widget that the run does not render is not read.
\<close>

record widgets =
  enquiry_question :: string
  adaptive_practices :: string
  year_group :: year_group
  objectives :: string
  active_learning :: string
  num_lessons :: int
  user_input :: string
  clicked :: "button option"

text \<open>
  One run of \<^verbatim>\<open>main\<close>: the session state it leaves, the requests it sent, the messages
  it showed, whether it ended in \<^verbatim>\<open>st.rerun()\<close> or \<^verbatim>\<open>st.experimental_rerun()\<close>, and
  whether it was ended by an exception that nothing in the script catches. What a run has
  written to the session state stays written when the run ends that way.
  Style sheets and the markup of the rendered history change no state and are left out.
\<close>

record run =
  session :: session_state
  requests :: "completion_request list"
  displayed :: "display list"
  rerun :: bool
  aborted :: bool

definition fill_out_warning :: string where
  "fill_out_warning = [CHR 0xE2, CHR 0x9A, CHR 0xA0, CHR 0xEF, CHR 0xB8, CHR 0x8F]
     @ '' Please fill out all fields to generate a lesson plan!''"

definition generated_success :: string where
  "generated_success = [CHR 0xE2, CHR 0x9C, CHR 0x85] @ '' Lesson plan generated successfully!''"

text \<open>Lines 163 to 220: the form, shown while \<^verbatim>\<open>generated_plan\<close> is falsy.\<close>

definition form_view :: "completion_client \<Rightarrow> session_state \<Rightarrow> widgets \<Rightarrow> run" where
  "form_view client st w =
     (if clicked w = Some Generate_Lesson_Plan then
        if \<not> list_all truthy [enquiry_question w, objectives w, active_learning w, adaptive_practices w]
        then \<lparr>session = st, requests = [], displayed = [Warning fill_out_warning], rerun = False, aborted = False\<rparr>
        else
          let g = generate_lesson_plan_with_openai client (enquiry_question w)
                    (year_group_label (year_group w)) (num_lessons w) (objectives w)
                    (active_learning w) (adaptive_practices w)
          in if truthy_opt (returned g)
             then \<lparr>session = st\<lparr>generated_plan := returned g\<rparr>, requests = calls g,
                   displayed = shown g @ [Success generated_success], rerun = True, aborted = False\<rparr>
             else \<lparr>session = st, requests = calls g, displayed = shown g, rerun = False, aborted = False\<rparr>
      else \<lparr>session = st, requests = [], displayed = [], rerun = False, aborted = False\<rparr>)"

text \<open>Lines 230 and 231: an empty history receives the current plan as its first entry.\<close>

definition seed_history :: "string \<Rightarrow> message list \<Rightarrow> message list" where
  "seed_history plan h = (if h = [] then h @ [\<lparr>role = Assistant, content = Some plan\<rparr>] else h)"

text \<open>
  Lines 263 to 268: \<^verbatim>\<open>st.download_button\<close> takes the plan as the data to offer. A text is
  accepted; \<^verbatim>\<open>None\<close> is no data format it knows, and it raises.
\<close>

definition download_raises :: "string option \<Rightarrow> bool" where
  "download_raises data = (data = None)"

text \<open>
  Lines 224 to 275: the chat, shown while \<^verbatim>\<open>generated_plan\<close> is the truthy text \<open>plan\<close>.
  The Send branch runs first and makes its assignments. Then the download button is
  built from the plan as it is at that moment; when that raises, the run ends there and
  the Create New Plan button below it is neither shown nor read.
\<close>

definition chat_view :: "completion_client \<Rightarrow> string \<Rightarrow> session_state \<Rightarrow> widgets \<Rightarrow> run" where
  "chat_view client plan st w =
     (let st1 = st\<lparr>chat_history := seed_history plan (chat_history st)\<rparr>;
          sent =
            (if clicked w = Some Send \<and> truthy (user_input w) then
               let refined = refine_lesson_plan_with_openai client plan (user_input w)
               in \<lparr>session = \<lparr>generated_plan = returned refined,
                               chat_history = chat_history st1
                                 @ [\<lparr>role = User, content = Some (user_input w)\<rparr>]
                                 @ [\<lparr>role = Assistant, content = returned refined\<rparr>]\<rparr>,
                   requests = calls refined, displayed = shown refined, rerun = False,
                   aborted = False\<rparr>
             else \<lparr>session = st1, requests = [], displayed = [], rerun = False, aborted = False\<rparr>)
      in if download_raises (generated_plan (session sent))
         then sent\<lparr>aborted := True\<rparr>
         else if clicked w = Some Create_New_Plan
         then sent\<lparr>session := \<lparr>generated_plan = None, chat_history = []\<rparr>, rerun := True\<rparr>
         else sent)"

definition main :: "completion_client \<Rightarrow> session_state \<Rightarrow> widgets \<Rightarrow> run" where
  "main client st w =
     (case generated_plan st of
        None \<Rightarrow> form_view client st w
      | Some plan \<Rightarrow> if \<not> truthy plan then form_view client st w else chat_view client plan st w)"

text \<open>
  One user interaction: the script runs with the widget values of the interaction; when it
  ends in a rerun, it runs once more on the state it left, with no button pressed. A run
  ended by an exception asks for no rerun.
\<close>

definition interact :: "completion_client \<Rightarrow> session_state \<Rightarrow> widgets \<Rightarrow> run" where
  "interact client st w =
     (let r = main client st w
      in if rerun r then
           let r' = main client (session r) (w\<lparr>clicked := None\<rparr>)
           in r'\<lparr>requests := requests r @ requests r', displayed := displayed r @ displayed r'\<rparr>
         else r)"

text \<open>A session: interactions in order, each with the service as it answers at that moment.\<close>

fun run_session :: "session_state \<Rightarrow> (completion_client \<times> widgets) list \<Rightarrow> session_state" where
  "run_session st [] = st"
| "run_session st ((client, w) # es) = run_session (session (interact client st w)) es"

section \<open>Vocabulary of the properties\<close>

text \<open>
  The phase of a session is read off \<^verbatim>\<open>generated_plan\<close> the way line 162 does, by its
  truth value: an absent plan and an empty one both show the form.
\<close>

datatype phase = Composing | Refining

definition phase :: "session_state \<Rightarrow> phase" where
  "phase st = (if truthy_opt (generated_plan st) then Refining else Composing)"

text \<open>The request that the Generate button sends for the widget values \<open>w\<close> (lines 208 to 215).\<close>

definition form_request :: "widgets \<Rightarrow> completion_request" where
  "form_request w = generation_request (enquiry_question w) (year_group_label (year_group w))
     (num_lessons w) (objectives w) (active_learning w) (adaptive_practices w)"

text \<open>
  A successful refinement round trip: Send is pressed in the chat with a non-empty message,
  and the service answers the refinement request with a text.
\<close>

definition successful_refinement :: "completion_client \<Rightarrow> session_state \<Rightarrow> widgets \<Rightarrow> bool" where
  "successful_refinement client st w =
     (clicked w = Some Send \<and> truthy (user_input w) \<and>
      (case generated_plan st of
         None \<Rightarrow> False
       | Some plan \<Rightarrow> truthy plan \<and>
           (case client (refinement_request plan (user_input w)) of
              Returned (Some text) \<Rightarrow> True
            | _ \<Rightarrow> False)))"

fun refinement_round_trips :: "session_state \<Rightarrow> (completion_client \<times> widgets) list \<Rightarrow> bool" where
  "refinement_round_trips st [] = True"
| "refinement_round_trips st ((client, w) # es) =
     (successful_refinement client st w \<and> refinement_round_trips (session (interact client st w)) es)"

text \<open>What holds of the session state between any two interactions (shown below).\<close>

definition session_invariant :: "session_state \<Rightarrow> bool" where
  "session_invariant st =
     (case chat_history st of
        [] \<Rightarrow> generated_plan st = None
      | m # ms \<Rightarrow> role m = Assistant \<and> truthy_opt (content m)
                 \<and> list_all (\<lambda>x. role x \<noteq> System) ms
                 \<and> (ms = [] \<longrightarrow> generated_plan st = content m))"

subsection \<open>Concrete inputs\<close>

text \<open>A filled form, a service that answers every request with one text, and one that fails.\<close>

definition example_form :: widgets where
  "example_form =
     \<lparr>enquiry_question = ''Why do leaves change color?'', adaptive_practices = ''...'',
      year_group = Year_3, objectives = ''...'', active_learning = ''...'', num_lessons = 3,
      user_input = [], clicked = None\<rparr>"

definition press_generate :: widgets where
  "press_generate = example_form\<lparr>clicked := Some Generate_Lesson_Plan\<rparr>"

definition press_send :: "string \<Rightarrow> widgets" where
  "press_send text = example_form\<lparr>user_input := text, clicked := Some Send\<rparr>"

definition press_new_plan :: widgets where
  "press_new_plan = example_form\<lparr>clicked := Some Create_New_Plan\<rparr>"

definition stub :: "string \<Rightarrow> completion_client" where
  "stub text = (\<lambda>req. Returned (Some text))"

definition failing :: "string \<Rightarrow> completion_client" where
  "failing e = (\<lambda>req. Raised e)"

section \<open>Basic facts\<close>

lemma sublist_after: "sublist xs ys \<Longrightarrow> sublist xs (ps @ ys)"
  by (metis append.assoc sublist_def)

lemma year_group_label_truthy: "truthy (year_group_label y)"
  by (cases y) (simp_all add: truthy_def)

lemma main_form: "\<not> truthy_opt (generated_plan st) \<Longrightarrow> main client st w = form_view client st w"
  by (cases "generated_plan st") (simp_all add: main_def)

lemma main_chat:
  "generated_plan st = Some plan \<Longrightarrow> truthy plan \<Longrightarrow> main client st w = chat_view client plan st w"
  by (simp add: main_def)

text \<open>A run with no button pressed sends nothing, and never asks for another run.\<close>

lemma main_no_button:
  "main client st (w\<lparr>clicked := None\<rparr>) =
     \<lparr>session = (case generated_plan st of
                   None \<Rightarrow> st
                 | Some plan \<Rightarrow> if truthy plan
                     then st\<lparr>chat_history := seed_history plan (chat_history st)\<rparr> else st),
      requests = [], displayed = [], rerun = False, aborted = False\<rparr>"
  by (simp add: main_def form_view_def chat_view_def download_raises_def Let_def
        split: option.splits)

lemma last_filter_keep:
  assumes "xs \<noteq> []" and "P (last xs)"
  shows "last (filter P xs) = last xs"
proof -
  from assms(1) have "xs = butlast xs @ [last xs]" by simp
  then have "filter P xs = filter P (butlast xs) @ filter P [last xs]"
    by (metis filter_append)
  with assms(2) show ?thesis by simp
qed

lemma last_pairs:
  "last (x # concat (replicate k [User, Assistant])) = (if k = 0 then x else Assistant)"
  by (induction k arbitrary: x) simp_all

text \<open>The run that follows a rerun asks for no further one, so an interaction is two runs at most.\<close>

lemma interact_settles: "rerun (interact client st w) = False"
  by (simp add: interact_def Let_def main_no_button)

text \<open>The definitions a concrete run unfolds.\<close>

lemmas script_defs = interact_def main_def form_view_def chat_view_def download_raises_def
  generate_lesson_plan_with_openai_def refine_lesson_plan_with_openai_def
  seed_history_def truthy_def Let_def

lemmas input_defs = stub_def failing_def press_generate_def press_send_def press_new_plan_def
  example_form_def initial_session_def

section \<open>The prompt\<close>

text \<open>
  C9. Whatever the field values are, the generation prompt contains the enquiry question,
  the year group and the decimal text of the lesson count as contiguous substrings.
\<close>

theorem generation_prompt_contains_inputs:
  "sublist enquiryQuestion (generation_prompt enquiryQuestion yearGroup lessonCount obj act adp)
   \<and> sublist yearGroup (generation_prompt enquiryQuestion yearGroup lessonCount obj act adp)
   \<and> sublist (str_int lessonCount) (generation_prompt enquiryQuestion yearGroup lessonCount obj act adp)"
  unfolding generation_prompt_def
  by (intro conjI; (rule sublist_append_rightI | rule sublist_after)+)

section \<open>The Generate action\<close>

text \<open>
  C3. On the form, pressing Generate while any required text field is empty shows the
  fill-out warning, sends no request and leaves the session as it was. The code tests the
  four free-text fields; the fifth, the year group, is a choice among seven labels and is
  never empty.
\<close>

theorem generate_validation:
  assumes "phase st = Composing"
    and "clicked w = Some Generate_Lesson_Plan"
    and "enquiry_question w = [] \<or> year_group_label (year_group w) = [] \<or> objectives w = []
         \<or> active_learning w = [] \<or> adaptive_practices w = []"
  shows "interact client st w =
           \<lparr>session = st, requests = [], displayed = [Warning fill_out_warning],
            rerun = False, aborted = False\<rparr>"
proof -
  from assms(3) year_group_label_truthy [of "year_group w"]
  have "\<not> list_all truthy [enquiry_question w, objectives w, active_learning w, adaptive_practices w]"
    by (auto simp: truthy_def)
  with assms(2) have "form_view client st w =
      \<lparr>session = st, requests = [], displayed = [Warning fill_out_warning],
       rerun = False, aborted = False\<rparr>"
    by (simp add: form_view_def)
  moreover from assms(1) have "main client st w = form_view client st w"
    by (intro main_form) (simp add: phase_def split: if_splits)
  ultimately show ?thesis by (simp add: interact_def)
qed

theorem generate_validation_witness:
  "phase initial_session = Composing
   \<and> clicked (press_generate\<lparr>objectives := []\<rparr>) = Some Generate_Lesson_Plan
   \<and> objectives (press_generate\<lparr>objectives := []\<rparr>) = []
   \<and> interact (stub ''PLAN_V1'') initial_session (press_generate\<lparr>objectives := []\<rparr>) =
       \<lparr>session = initial_session, requests = [], displayed = [Warning fill_out_warning],
        rerun = False, aborted = False\<rparr>"
proof -
  have a: "phase initial_session = Composing"
    by (simp add: phase_def initial_session_def)
  have b: "clicked (press_generate\<lparr>objectives := []\<rparr>) = Some Generate_Lesson_Plan"
    by (simp add: press_generate_def)
  have c: "objectives (press_generate\<lparr>objectives := []\<rparr>) = []"
    by simp
  from generate_validation [OF a b, of "stub ''PLAN_V1''"] a b c show ?thesis
    by simp
qed

text \<open>
  C4. On the form, when the request sent by Generate fails, the interaction leaves the
  session as it was, so the phase is still Composing and an absent plan is still absent;
  the failure is shown as an error message, and the fill-out warning is not shown.
\<close>

theorem generate_failure:
  assumes "phase st = Composing"
    and "clicked w = Some Generate_Lesson_Plan"
    and "enquiry_question w \<noteq> []" and "objectives w \<noteq> []"
    and "active_learning w \<noteq> []" and "adaptive_practices w \<noteq> []"
    and "client (form_request w) = Raised e"
  shows "interact client st w =
           \<lparr>session = st, requests = [form_request w],
            displayed = [Error (''Error generating lesson plan: '' @ e)], rerun = False, aborted = False\<rparr>
         \<and> phase (session (interact client st w)) = Composing
         \<and> (generated_plan st = None \<longrightarrow> generated_plan (session (interact client st w)) = None)
         \<and> Warning fill_out_warning \<notin> set (displayed (interact client st w))"
proof -
  from assms(1) have m: "main client st w = form_view client st w"
    by (intro main_form) (simp add: phase_def split: if_splits)
  from assms(7) have g: "generate_lesson_plan_with_openai client (enquiry_question w)
        (year_group_label (year_group w)) (num_lessons w) (objectives w)
        (active_learning w) (adaptive_practices w) =
      \<lparr>returned = None, calls = [form_request w],
       shown = [Error (''Error generating lesson plan: '' @ e)]\<rparr>"
    by (simp add: generate_lesson_plan_with_openai_def form_request_def)
  from assms(2-6) g have "form_view client st w =
      \<lparr>session = st, requests = [form_request w],
       displayed = [Error (''Error generating lesson plan: '' @ e)],
        rerun = False, aborted = False\<rparr>"
    by (simp add: form_view_def truthy_def)
  with m have i: "interact client st w =
      \<lparr>session = st, requests = [form_request w],
       displayed = [Error (''Error generating lesson plan: '' @ e)],
        rerun = False, aborted = False\<rparr>"
    by (simp add: interact_def)
  with assms(1) show ?thesis by simp
qed

theorem generate_failure_witness:
  "phase initial_session = Composing
   \<and> failing ''timeout'' (form_request press_generate) = Raised ''timeout''
   \<and> interact (failing ''timeout'') initial_session press_generate =
       \<lparr>session = initial_session, requests = [form_request press_generate],
        displayed = [Error ''Error generating lesson plan: timeout''],
         rerun = False, aborted = False\<rparr>"
proof -
  have a: "phase initial_session = Composing"
    by (simp add: phase_def initial_session_def)
  have b: "clicked press_generate = Some Generate_Lesson_Plan"
    "enquiry_question press_generate \<noteq> []" "objectives press_generate \<noteq> []"
    "active_learning press_generate \<noteq> []" "adaptive_practices press_generate \<noteq> []"
    by (simp_all add: press_generate_def example_form_def)
  have c: "failing ''timeout'' (form_request press_generate) = Raised ''timeout''"
    by (simp add: failing_def)
  from generate_failure [where client = "failing ''timeout''" and st = initial_session
      and w = press_generate and e = "''timeout''"] a b c
  show ?thesis by simp
qed

text \<open>What a generation that returns a non-empty text does, whatever the history holds.\<close>

lemma generate_effect:
  assumes "phase st = Composing"
    and "clicked w = Some Generate_Lesson_Plan"
    and "enquiry_question w \<noteq> []" and "objectives w \<noteq> []"
    and "active_learning w \<noteq> []" and "adaptive_practices w \<noteq> []"
    and "client (form_request w) = Returned (Some reply)" and "reply \<noteq> []"
  shows "interact client st w =
           \<lparr>session = \<lparr>generated_plan = Some reply,
                       chat_history = seed_history reply (chat_history st)\<rparr>,
            requests = [form_request w], displayed = [Success generated_success],
             rerun = False, aborted = False\<rparr>"
proof -
  from assms(1) have m: "main client st w = form_view client st w"
    by (intro main_form) (simp add: phase_def split: if_splits)
  from assms(7) have g: "generate_lesson_plan_with_openai client (enquiry_question w)
        (year_group_label (year_group w)) (num_lessons w) (objectives w)
        (active_learning w) (adaptive_practices w) =
      \<lparr>returned = Some reply, calls = [form_request w], shown = []\<rparr>"
    by (simp add: generate_lesson_plan_with_openai_def form_request_def)
  from assms(2-6,8) g have f: "form_view client st w =
      \<lparr>session = st\<lparr>generated_plan := Some reply\<rparr>, requests = [form_request w],
       displayed = [Success generated_success], rerun = True, aborted = False\<rparr>"
    by (simp add: form_view_def truthy_def)
  from assms(8) have "main client (st\<lparr>generated_plan := Some reply\<rparr>) (w\<lparr>clicked := None\<rparr>) =
      \<lparr>session = \<lparr>generated_plan = Some reply,
                  chat_history = seed_history reply (chat_history st)\<rparr>,
       requests = [], displayed = [], rerun = False, aborted = False\<rparr>"
    by (simp add: main_no_button truthy_def)
  with m f show ?thesis by (simp add: interact_def)
qed

text \<open>
  A generation call can succeed and leave no plan: the service answers with an empty text,
  line 217 finds it falsy, and the session stays as it was. And a generation made while
  the history still holds an earlier conversation (here after a refinement whose call
  failed) sets the plan but leaves that history untouched, since line 230 seeds an empty
  history only.
\<close>

theorem generate_success_counterexample:
  "stub [] (form_request press_generate) = Returned (Some [])
   \<and> session (interact (stub []) initial_session press_generate) = initial_session
   \<and> run_session initial_session
        [(stub ''PLAN_V1'', press_generate),
         (failing ''timeout'', press_send ''add more group work''),
         (stub ''PLAN_V2'', press_generate)] =
       \<lparr>generated_plan = Some ''PLAN_V2'',
        chat_history = [\<lparr>role = Assistant, content = Some ''PLAN_V1''\<rparr>,
                        \<lparr>role = User, content = Some ''add more group work''\<rparr>,
                        \<lparr>role = Assistant, content = None\<rparr>]\<rparr>"
  by (simp add: script_defs input_defs)

text \<open>
  C7. A generation call that returns a non-empty text, made on the form while
  the history is empty (at the start of a session, after Create New Plan), leaves
  \<^verbatim>\<open>generated_plan\<close> equal to that text and a history of exactly one entry, an assistant
  message with the same text.
\<close>

theorem generate_success:
  assumes "phase st = Composing" and "chat_history st = []"
    and "clicked w = Some Generate_Lesson_Plan"
    and "enquiry_question w \<noteq> []" and "objectives w \<noteq> []"
    and "active_learning w \<noteq> []" and "adaptive_practices w \<noteq> []"
    and "client (form_request w) = Returned (Some reply)" and "reply \<noteq> []"
  shows "session (interact client st w) =
           \<lparr>generated_plan = Some reply, chat_history = [\<lparr>role = Assistant, content = Some reply\<rparr>]\<rparr>"
  using generate_effect [where client = client and st = st and w = w and reply = reply] assms
  by (simp add: seed_history_def)

theorem generate_success_witness:
  "session (interact (stub ''PLAN_V1'') initial_session press_generate) =
     \<lparr>generated_plan = Some ''PLAN_V1'',
      chat_history = [\<lparr>role = Assistant, content = Some ''PLAN_V1''\<rparr>]\<rparr>"
proof -
  have a: "phase initial_session = Composing" "chat_history initial_session = []"
    by (simp_all add: phase_def initial_session_def)
  have b: "clicked press_generate = Some Generate_Lesson_Plan"
    "enquiry_question press_generate \<noteq> []" "objectives press_generate \<noteq> []"
    "active_learning press_generate \<noteq> []" "adaptive_practices press_generate \<noteq> []"
    by (simp_all add: press_generate_def example_form_def)
  have c: "stub ''PLAN_V1'' (form_request press_generate) = Returned (Some ''PLAN_V1'')"
    "''PLAN_V1'' \<noteq> []"
    by (simp_all add: stub_def)
  from generate_success [where client = "stub ''PLAN_V1''" and st = initial_session
      and w = press_generate and reply = "''PLAN_V1''"] a b c
  show ?thesis by simp
qed

section \<open>The Create New Plan action\<close>

text \<open>
  In the chat, Create New Plan leaves the session in its initial state, an absent plan and
  an empty history, whatever the history held.
\<close>

theorem new_plan_resets:
  assumes "phase st = Refining" and "clicked w = Some Create_New_Plan"
  shows "session (interact client st w) = initial_session"
proof -
  from assms(1) obtain plan where p: "generated_plan st = Some plan" "truthy plan"
    by (cases "generated_plan st") (auto simp: phase_def split: if_splits)
  from assms(2) p(1) have "chat_view client plan st w =
      \<lparr>session = initial_session, requests = [], displayed = [], rerun = True,
       aborted = False\<rparr>"
    by (simp add: chat_view_def Let_def initial_session_def download_raises_def)
  with p have "main client st w =
      \<lparr>session = initial_session, requests = [], displayed = [], rerun = True,
       aborted = False\<rparr>"
    by (simp add: main_chat)
  then show ?thesis
    by (simp add: interact_def main_no_button initial_session_def)
qed

theorem new_plan_resets_witness:
  "phase \<lparr>generated_plan = Some ''PLAN_V2'',
          chat_history = [\<lparr>role = Assistant, content = Some ''PLAN_V1''\<rparr>,
                          \<lparr>role = User, content = Some ''add more group work''\<rparr>,
                          \<lparr>role = Assistant, content = Some ''PLAN_V2''\<rparr>]\<rparr> = Refining
   \<and> session (interact (stub ''PLAN_V3'')
        \<lparr>generated_plan = Some ''PLAN_V2'',
         chat_history = [\<lparr>role = Assistant, content = Some ''PLAN_V1''\<rparr>,
                         \<lparr>role = User, content = Some ''add more group work''\<rparr>,
                         \<lparr>role = Assistant, content = Some ''PLAN_V2''\<rparr>]\<rparr>
        press_new_plan) = initial_session"
proof -
  let ?st = "\<lparr>generated_plan = Some ''PLAN_V2'',
         chat_history = [\<lparr>role = Assistant, content = Some ''PLAN_V1''\<rparr>,
                         \<lparr>role = User, content = Some ''add more group work''\<rparr>,
                         \<lparr>role = Assistant, content = Some ''PLAN_V2''\<rparr>]\<rparr>"
  have a: "phase ?st = Refining" by (simp add: phase_def truthy_def)
  have b: "clicked press_new_plan = Some Create_New_Plan" by (simp add: press_new_plan_def)
  from new_plan_resets [OF a b, of "stub ''PLAN_V3''"] a show ?thesis by simp
qed

text \<open>
  C8. Create New Plan does not reset every session in which it can be pressed. A
  refinement that the service answers with an empty text stores that text as the plan
  (line 259), and the same run goes on to show the button (line 270). The run that the
  click starts finds the plan falsy and shows the form, where the button is not read: the
  session keeps its empty plan and its three history entries, and is not the initial one.
\<close>

theorem new_plan_after_empty_refinement:
  "run_session initial_session
     [(stub ''PLAN_V1'', press_generate), (stub [], press_send ''tidy up'')] =
     \<lparr>generated_plan = Some [],
      chat_history = [\<lparr>role = Assistant, content = Some ''PLAN_V1''\<rparr>,
                      \<lparr>role = User, content = Some ''tidy up''\<rparr>,
                      \<lparr>role = Assistant, content = Some []\<rparr>]\<rparr>
   \<and> \<not> aborted (interact (stub [])
         \<lparr>generated_plan = Some ''PLAN_V1'',
          chat_history = [\<lparr>role = Assistant, content = Some ''PLAN_V1''\<rparr>]\<rparr>
         (press_send ''tidy up''))
   \<and> session (interact (stub ''PLAN_V2'')
         \<lparr>generated_plan = Some [],
          chat_history = [\<lparr>role = Assistant, content = Some ''PLAN_V1''\<rparr>,
                          \<lparr>role = User, content = Some ''tidy up''\<rparr>,
                          \<lparr>role = Assistant, content = Some []\<rparr>]\<rparr>
         press_new_plan) =
     \<lparr>generated_plan = Some [],
      chat_history = [\<lparr>role = Assistant, content = Some ''PLAN_V1''\<rparr>,
                      \<lparr>role = User, content = Some ''tidy up''\<rparr>,
                      \<lparr>role = Assistant, content = Some []\<rparr>]\<rparr>
   \<and> \<lparr>generated_plan = Some [],
       chat_history = [\<lparr>role = Assistant, content = Some ''PLAN_V1''\<rparr>,
                       \<lparr>role = User, content = Some ''tidy up''\<rparr>,
                       \<lparr>role = Assistant, content = Some []\<rparr>]\<rparr> \<noteq> initial_session"
  by (simp add: script_defs input_defs)

section \<open>The Send action\<close>

text \<open>What a Send with a non-empty message does to a session that shows the chat.\<close>

lemma send_effect:
  assumes "generated_plan st = Some plan" and "truthy plan"
    and "clicked w = Some Send" and "truthy (user_input w)"
  shows "interact client st w =
     \<lparr>session = \<lparr>generated_plan = returned (refine_lesson_plan_with_openai client plan (user_input w)),
                 chat_history = seed_history plan (chat_history st)
                   @ [\<lparr>role = User, content = Some (user_input w)\<rparr>,
                      \<lparr>role = Assistant,
                       content = returned (refine_lesson_plan_with_openai client plan (user_input w))\<rparr>]\<rparr>,
      requests = calls (refine_lesson_plan_with_openai client plan (user_input w)),
      displayed = shown (refine_lesson_plan_with_openai client plan (user_input w)),
      rerun = False,
      aborted = (returned (refine_lesson_plan_with_openai client plan (user_input w)) = None)\<rparr>"
proof -
  from assms(3,4) have "chat_view client plan st w =
     \<lparr>session = \<lparr>generated_plan = returned (refine_lesson_plan_with_openai client plan (user_input w)),
                 chat_history = seed_history plan (chat_history st)
                   @ [\<lparr>role = User, content = Some (user_input w)\<rparr>,
                      \<lparr>role = Assistant,
                       content = returned (refine_lesson_plan_with_openai client plan (user_input w))\<rparr>]\<rparr>,
      requests = calls (refine_lesson_plan_with_openai client plan (user_input w)),
      displayed = shown (refine_lesson_plan_with_openai client plan (user_input w)),
      rerun = False,
      aborted = (returned (refine_lesson_plan_with_openai client plan (user_input w)) = None)\<rparr>"
    by (simp add: chat_view_def Let_def download_raises_def)
  with assms(1,2) show ?thesis
    by (simp add: interact_def main_chat)
qed

text \<open>
  A Send whose refinement returns \<^verbatim>\<open>None\<close> ends in the exception of the download button,
  after its assignments; any other Send runs to the end.
\<close>

lemma send_aborts:
  assumes "generated_plan st = Some plan" and "truthy plan"
    and "clicked w = Some Send" and "truthy (user_input w)"
  shows "aborted (interact client st w) =
           (returned (refine_lesson_plan_with_openai client plan (user_input w)) = None)"
  by (simp add: send_effect [OF assms])

text \<open>
  After a generation and a refinement whose call fails, the last history entry has no
  content and the plan is absent; the text of the failure is in neither, it is shown as an
  error message.
\<close>

theorem refinement_failure_counterexample:
  "run_session initial_session
     [(stub ''PLAN_V1'', press_generate), (failing ''quota exceeded'', press_send ''shorter please'')] =
     \<lparr>generated_plan = None,
      chat_history = [\<lparr>role = Assistant, content = Some ''PLAN_V1''\<rparr>,
                      \<lparr>role = User, content = Some ''shorter please''\<rparr>,
                      \<lparr>role = Assistant, content = None\<rparr>]\<rparr>
   \<and> displayed (interact (failing ''quota exceeded'')
         \<lparr>generated_plan = Some ''PLAN_V1'',
          chat_history = [\<lparr>role = Assistant, content = Some ''PLAN_V1''\<rparr>]\<rparr>
         (press_send ''shorter please'')) = [Error ''Error refining lesson plan: quota exceeded'']"
  by (simp add: script_defs input_defs)

text \<open>
  C1. In the chat, when the request sent for a non-empty message fails, the refinement
  call returns no text and the failure text is shown as the error message
  \<^verbatim>\<open>Error refining lesson plan: ...\<close>. The failure text is not written into the session:
  it does not become \<^verbatim>\<open>generated_plan\<close>, and the interaction adds no assistant entry that
  carries a text to the history.
\<close>

theorem refinement_failure:
  assumes "generated_plan st = Some plan" and "plan \<noteq> []" and "chat_history st \<noteq> []"
    and "clicked w = Some Send" and "user_input w \<noteq> []"
    and "client (refinement_request plan (user_input w)) = Raised e"
  shows "refine_lesson_plan_with_openai client plan (user_input w) =
           \<lparr>returned = None, calls = [refinement_request plan (user_input w)],
            shown = [Error (''Error refining lesson plan: '' @ e)]\<rparr>
    \<and> requests (interact client st w) = [refinement_request plan (user_input w)]
    \<and> displayed (interact client st w) = [Error (''Error refining lesson plan: '' @ e)]
    \<and> generated_plan (session (interact client st w)) \<noteq> Some (''Error refining lesson plan: '' @ e)
    \<and> generated_plan (session (interact client st w)) \<noteq> Some e
    \<and> filter (\<lambda>m. role m = Assistant \<and> content m \<noteq> None)
          (chat_history (session (interact client st w))) =
        filter (\<lambda>m. role m = Assistant \<and> content m \<noteq> None) (chat_history st)"
proof -
  from assms(6) have r: "refine_lesson_plan_with_openai client plan (user_input w) =
      \<lparr>returned = None, calls = [refinement_request plan (user_input w)],
       shown = [Error (''Error refining lesson plan: '' @ e)]\<rparr>"
    by (simp add: refine_lesson_plan_with_openai_def)
  from assms(3) have s: "seed_history plan (chat_history st) = chat_history st"
    by (simp add: seed_history_def)
  from send_effect [of st plan w client] assms(1,2,4,5) r s
  have i: "interact client st w =
     \<lparr>session = \<lparr>generated_plan = None,
                 chat_history = chat_history st
                   @ [\<lparr>role = User, content = Some (user_input w)\<rparr>,
                      \<lparr>role = Assistant, content = None\<rparr>]\<rparr>,
      requests = [refinement_request plan (user_input w)],
      displayed = [Error (''Error refining lesson plan: '' @ e)],
      rerun = False, aborted = True\<rparr>"
    by (simp add: truthy_def)
  from r show ?thesis
    by (simp add: i)
qed

theorem refinement_failure_witness:
  "failing ''timeout'' (refinement_request ''PLAN_V1'' ''add more group work'') = Raised ''timeout''
   \<and> chat_history \<lparr>generated_plan = Some ''PLAN_V1'',
         chat_history = [\<lparr>role = Assistant, content = Some ''PLAN_V1''\<rparr>]\<rparr> \<noteq> []
   \<and> requests (interact (failing ''timeout'')
        \<lparr>generated_plan = Some ''PLAN_V1'',
         chat_history = [\<lparr>role = Assistant, content = Some ''PLAN_V1''\<rparr>]\<rparr>
        (press_send ''add more group work'')) =
       [refinement_request ''PLAN_V1'' ''add more group work'']
   \<and> displayed (interact (failing ''timeout'')
        \<lparr>generated_plan = Some ''PLAN_V1'',
         chat_history = [\<lparr>role = Assistant, content = Some ''PLAN_V1''\<rparr>]\<rparr>
        (press_send ''add more group work'')) = [Error ''Error refining lesson plan: timeout'']
   \<and> generated_plan (session (interact (failing ''timeout'')
        \<lparr>generated_plan = Some ''PLAN_V1'',
         chat_history = [\<lparr>role = Assistant, content = Some ''PLAN_V1''\<rparr>]\<rparr>
        (press_send ''add more group work''))) \<noteq> Some ''Error refining lesson plan: timeout''
   \<and> filter (\<lambda>m. role m = Assistant \<and> content m \<noteq> None)
        (chat_history (session (interact (failing ''timeout'')
          \<lparr>generated_plan = Some ''PLAN_V1'',
           chat_history = [\<lparr>role = Assistant, content = Some ''PLAN_V1''\<rparr>]\<rparr>
          (press_send ''add more group work'')))) =
       [\<lparr>role = Assistant, content = Some ''PLAN_V1''\<rparr>]"
proof -
  let ?st = "\<lparr>generated_plan = Some ''PLAN_V1'',
         chat_history = [\<lparr>role = Assistant, content = Some ''PLAN_V1''\<rparr>]\<rparr>"
  have a: "generated_plan ?st = Some ''PLAN_V1''" "''PLAN_V1'' \<noteq> []" "chat_history ?st \<noteq> []"
    by simp_all
  have b: "clicked (press_send ''add more group work'') = Some Send"
    "user_input (press_send ''add more group work'') \<noteq> []"
    by (simp_all add: press_send_def)
  have u: "user_input (press_send ''add more group work'') = ''add more group work''"
    by (simp add: press_send_def)
  have c: "failing ''timeout'' (refinement_request ''PLAN_V1'' (user_input (press_send ''add more group work'')))
      = Raised ''timeout''"
    by (simp add: failing_def)
  from refinement_failure [where client = "failing ''timeout''" and plan = "''PLAN_V1''"
      and st = ?st and w = "press_send ''add more group work''" and e = "''timeout''"] a b c
  have "requests (interact (failing ''timeout'') ?st (press_send ''add more group work'')) =
          [refinement_request ''PLAN_V1'' (user_input (press_send ''add more group work''))]
    \<and> displayed (interact (failing ''timeout'') ?st (press_send ''add more group work'')) =
          [Error (''Error refining lesson plan: '' @ ''timeout'')]
    \<and> generated_plan (session (interact (failing ''timeout'') ?st (press_send ''add more group work'')))
          \<noteq> Some (''Error refining lesson plan: '' @ ''timeout'')
    \<and> filter (\<lambda>m. role m = Assistant \<and> content m \<noteq> None)
          (chat_history (session (interact (failing ''timeout'') ?st (press_send ''add more group work'')))) =
        filter (\<lambda>m. role m = Assistant \<and> content m \<noteq> None) (chat_history ?st)"
    by blast
  with u c show ?thesis by simp
qed

text \<open>A successful round trip appends the user's message and the answer, which is the new plan.\<close>

lemma successful_refinementD:
  assumes "successful_refinement client st w"
  obtains plan reply where "generated_plan st = Some plan" and "truthy plan"
    and "clicked w = Some Send" and "truthy (user_input w)"
    and "client (refinement_request plan (user_input w)) = Returned (Some reply)"
  using assms
  by (auto simp: successful_refinement_def split: option.splits completion_outcome.splits)

lemma refinement_success:
  assumes "successful_refinement client st w" and "chat_history st \<noteq> []"
  shows "\<exists>reply. session (interact client st w) =
           \<lparr>generated_plan = Some reply,
            chat_history = chat_history st @ [\<lparr>role = User, content = Some (user_input w)\<rparr>,
                                              \<lparr>role = Assistant, content = Some reply\<rparr>]\<rparr>"
proof -
  from assms(1) obtain plan reply where p: "generated_plan st = Some plan" "truthy plan"
      "clicked w = Some Send" "truthy (user_input w)"
      "client (refinement_request plan (user_input w)) = Returned (Some reply)"
    by (rule successful_refinementD)
  from p(5) have "returned (refine_lesson_plan_with_openai client plan (user_input w)) = Some reply"
    by (simp add: refine_lesson_plan_with_openai_def)
  with send_effect [OF p(1-4), of client] assms(2) show ?thesis
    by (simp add: seed_history_def)
qed

lemma round_trips_grow:
  assumes "refinement_round_trips st es"
    and "map role (chat_history st) = Assistant # concat (replicate k [User, Assistant])"
    and "content (last (chat_history st)) = generated_plan st"
  shows "map role (chat_history (run_session st es)) =
           Assistant # concat (replicate (k + length es) [User, Assistant])
         \<and> content (last (chat_history (run_session st es))) = generated_plan (run_session st es)"
  using assms
proof (induction es arbitrary: st k)
  case Nil
  then show ?case by simp
next
  case (Cons e es)
  obtain client w where e: "e = (client, w)" by (cases e)
  from Cons.prems(1) e have s: "successful_refinement client st w"
    and r: "refinement_round_trips (session (interact client st w)) es"
    by simp_all
  from Cons.prems(2) have ne: "chat_history st \<noteq> []" by auto
  from refinement_success [OF s ne] obtain reply where
    st': "session (interact client st w) =
           \<lparr>generated_plan = Some reply,
            chat_history = chat_history st @ [\<lparr>role = User, content = Some (user_input w)\<rparr>,
                                              \<lparr>role = Assistant, content = Some reply\<rparr>]\<rparr>"
    by blast
  have "concat (replicate k [User, Assistant]) @ [User, Assistant]
      = concat (replicate (Suc k) [User, Assistant])"
    by (induction k) simp_all
  with Cons.prems(2) st' have a: "map role (chat_history (session (interact client st w))) =
      Assistant # concat (replicate (Suc k) [User, Assistant])"
    by simp
  from st' have b: "content (last (chat_history (session (interact client st w))))
      = generated_plan (session (interact client st w))"
    by simp
  from Cons.IH [OF r a b] e show ?case by simp
qed

lemma last_assistant:
  assumes "map role h = Assistant # concat (replicate k [User, Assistant])"
  shows "last (filter (\<lambda>m. role m = Assistant) h) = last h"
proof -
  from assms have ne: "h \<noteq> []" by auto
  have "last (Assistant # concat (replicate k [User, Assistant])) = Assistant"
    by (simp only: last_pairs if_cancel)
  with assms have "last (map role h) = Assistant" by simp
  with ne have "role (last h) = Assistant" by (simp add: last_map)
  with ne show ?thesis
    by (simp add: last_filter_keep)
qed

text \<open>
  Two sessions in which the count fails. A generation that succeeds with an empty text
  leaves the history empty. And after a refinement whose call failed, the form is shown
  again with the old history in place: the next generation adds no entry, and one
  successful round trip later the history has five entries.
\<close>

theorem refinement_round_trips_history_counterexample:
  "stub [] (form_request press_generate) = Returned (Some [])
   \<and> chat_history (run_session initial_session [(stub [], press_generate)]) = []
   \<and> successful_refinement (stub ''PLAN_V3'')
        (run_session initial_session
          [(stub ''PLAN_V1'', press_generate),
           (failing ''connection reset'', press_send ''add a quiz''),
           (stub ''PLAN_V2'', press_generate)])
        (press_send ''use more visuals'')
   \<and> chat_history (run_session initial_session
          [(stub ''PLAN_V1'', press_generate),
           (failing ''connection reset'', press_send ''add a quiz''),
           (stub ''PLAN_V2'', press_generate),
           (stub ''PLAN_V3'', press_send ''use more visuals'')]) =
       [\<lparr>role = Assistant, content = Some ''PLAN_V1''\<rparr>,
        \<lparr>role = User, content = Some ''add a quiz''\<rparr>,
        \<lparr>role = Assistant, content = None\<rparr>,
        \<lparr>role = User, content = Some ''use more visuals''\<rparr>,
        \<lparr>role = Assistant, content = Some ''PLAN_V3''\<rparr>]"
  by (simp add: successful_refinement_def script_defs input_defs)

text \<open>
  C2. Take a generation that returns a non-empty text, made on the form while the
  history is empty, and any number N of successful refinement round trips after it. The
  history then has exactly 1 + 2N entries, the assistant's seed followed by N pairs of a
  user and an assistant entry, and \<^verbatim>\<open>generated_plan\<close> is the content of the last
  assistant entry.
\<close>

theorem refinement_round_trips_history:
  assumes "phase st = Composing" and "chat_history st = []"
    and "clicked w = Some Generate_Lesson_Plan"
    and "enquiry_question w \<noteq> []" and "objectives w \<noteq> []"
    and "active_learning w \<noteq> []" and "adaptive_practices w \<noteq> []"
    and "client (form_request w) = Returned (Some reply)" and "reply \<noteq> []"
    and "refinement_round_trips (session (interact client st w)) es"
  shows "length (chat_history (run_session st ((client, w) # es))) = 1 + 2 * length es
    \<and> map role (chat_history (run_session st ((client, w) # es))) =
         Assistant # concat (replicate (length es) [User, Assistant])
    \<and> generated_plan (run_session st ((client, w) # es)) =
         content (last (filter (\<lambda>m. role m = Assistant)
           (chat_history (run_session st ((client, w) # es)))))"
proof -
  let ?st0 = "session (interact client st w)"
  from generate_effect [where client = client and st = st and w = w and reply = reply] assms(1-9)
  have st0: "?st0 =
      \<lparr>generated_plan = Some reply, chat_history = [\<lparr>role = Assistant, content = Some reply\<rparr>]\<rparr>"
    by (simp add: seed_history_def)
  then have a: "map role (chat_history ?st0) = Assistant # concat (replicate 0 [User, Assistant])"
    and b: "content (last (chat_history ?st0)) = generated_plan ?st0"
    by simp_all
  from round_trips_grow [OF assms(10) a b]
  have r: "map role (chat_history (run_session ?st0 es)) =
             Assistant # concat (replicate (length es) [User, Assistant])"
    and c: "content (last (chat_history (run_session ?st0 es))) = generated_plan (run_session ?st0 es)"
    by simp_all
  from r have "length (map role (chat_history (run_session ?st0 es))) = 1 + 2 * length es"
    by (simp add: length_concat sum_list_replicate)
  then have l: "length (chat_history (run_session ?st0 es)) = 1 + 2 * length es"
    by simp
  from last_assistant [OF r] c l r show ?thesis
    by simp
qed

theorem refinement_round_trips_history_witness:
  "refinement_round_trips (session (interact (stub ''PLAN_V1'') initial_session press_generate))
     [(stub ''PLAN_V2'', press_send ''add more group work''),
      (stub ''PLAN_V3'', press_send ''shorter please'')]
   \<and> run_session initial_session
       [(stub ''PLAN_V1'', press_generate),
        (stub ''PLAN_V2'', press_send ''add more group work''),
        (stub ''PLAN_V3'', press_send ''shorter please'')] =
       \<lparr>generated_plan = Some ''PLAN_V3'',
        chat_history = [\<lparr>role = Assistant, content = Some ''PLAN_V1''\<rparr>,
                        \<lparr>role = User, content = Some ''add more group work''\<rparr>,
                        \<lparr>role = Assistant, content = Some ''PLAN_V2''\<rparr>,
                        \<lparr>role = User, content = Some ''shorter please''\<rparr>,
                        \<lparr>role = Assistant, content = Some ''PLAN_V3''\<rparr>]\<rparr>
   \<and> length (chat_history (run_session initial_session
       [(stub ''PLAN_V1'', press_generate),
        (stub ''PLAN_V2'', press_send ''add more group work''),
        (stub ''PLAN_V3'', press_send ''shorter please'')])) = 5
   \<and> generated_plan (run_session initial_session
       [(stub ''PLAN_V1'', press_generate),
        (stub ''PLAN_V2'', press_send ''add more group work''),
        (stub ''PLAN_V3'', press_send ''shorter please'')]) =
      content (last (filter (\<lambda>m. role m = Assistant) (chat_history (run_session initial_session
       [(stub ''PLAN_V1'', press_generate),
        (stub ''PLAN_V2'', press_send ''add more group work''),
        (stub ''PLAN_V3'', press_send ''shorter please'')]))))"
proof -
  let ?es = "[(stub ''PLAN_V2'', press_send ''add more group work''),
      (stub ''PLAN_V3'', press_send ''shorter please'')]"
  have a: "phase initial_session = Composing" "chat_history initial_session = []"
    by (simp_all add: phase_def initial_session_def)
  have b: "clicked press_generate = Some Generate_Lesson_Plan"
    "enquiry_question press_generate \<noteq> []" "objectives press_generate \<noteq> []"
    "active_learning press_generate \<noteq> []" "adaptive_practices press_generate \<noteq> []"
    by (simp_all add: press_generate_def example_form_def)
  have c: "stub ''PLAN_V1'' (form_request press_generate) = Returned (Some ''PLAN_V1'')"
    "''PLAN_V1'' \<noteq> []"
    by (simp_all add: stub_def)
  have d: "refinement_round_trips (session (interact (stub ''PLAN_V1'') initial_session press_generate)) ?es"
    by (simp add: successful_refinement_def script_defs input_defs)
  have e: "run_session initial_session ((stub ''PLAN_V1'', press_generate) # ?es) =
       \<lparr>generated_plan = Some ''PLAN_V3'',
        chat_history = [\<lparr>role = Assistant, content = Some ''PLAN_V1''\<rparr>,
                        \<lparr>role = User, content = Some ''add more group work''\<rparr>,
                        \<lparr>role = Assistant, content = Some ''PLAN_V2''\<rparr>,
                        \<lparr>role = User, content = Some ''shorter please''\<rparr>,
                        \<lparr>role = Assistant, content = Some ''PLAN_V3''\<rparr>]\<rparr>"
    by (simp add: script_defs input_defs)
  from refinement_round_trips_history [where client = "stub ''PLAN_V1''" and st = initial_session
      and w = press_generate and reply = "''PLAN_V1''" and es = ?es] a b c d
  have "length (chat_history (run_session initial_session ((stub ''PLAN_V1'', press_generate) # ?es)))
          = 1 + 2 * length ?es
    \<and> generated_plan (run_session initial_session ((stub ''PLAN_V1'', press_generate) # ?es)) =
         content (last (filter (\<lambda>m. role m = Assistant)
           (chat_history (run_session initial_session ((stub ''PLAN_V1'', press_generate) # ?es)))))"
    by blast
  with d e show ?thesis by simp
qed

section \<open>Sessions from the initial state\<close>

text \<open>What one interaction can do to the session state, by phase.\<close>

lemma form_view_session:
  "(session (form_view client st w) = st \<and> \<not> rerun (form_view client st w))
   \<or> (\<exists>reply. reply \<noteq> [] \<and> session (form_view client st w) = st\<lparr>generated_plan := Some reply\<rparr>
         \<and> rerun (form_view client st w))"
  by (cases "returned (generate_lesson_plan_with_openai client (enquiry_question w)
        (year_group_label (year_group w)) (num_lessons w) (objectives w)
        (active_learning w) (adaptive_practices w))")
     (auto simp: form_view_def Let_def truthy_def)

lemma interact_form:
  assumes "phase st = Composing"
  shows "session (interact client st w) = st
   \<or> (\<exists>reply. reply \<noteq> [] \<and> session (interact client st w) =
         \<lparr>generated_plan = Some reply, chat_history = seed_history reply (chat_history st)\<rparr>)"
proof -
  from assms have m: "main client st w = form_view client st w"
    by (intro main_form) (simp add: phase_def split: if_splits)
  from form_view_session [of client st w] show ?thesis
  proof
    assume "session (form_view client st w) = st \<and> \<not> rerun (form_view client st w)"
    with m show ?thesis by (simp add: interact_def)
  next
    assume "\<exists>reply. reply \<noteq> [] \<and> session (form_view client st w) = st\<lparr>generated_plan := Some reply\<rparr>
         \<and> rerun (form_view client st w)"
    then obtain reply where r: "reply \<noteq> []"
      "session (form_view client st w) = st\<lparr>generated_plan := Some reply\<rparr>"
      "rerun (form_view client st w)" by blast
    with m have "session (interact client st w) =
         \<lparr>generated_plan = Some reply, chat_history = seed_history reply (chat_history st)\<rparr>"
      by (simp add: interact_def main_no_button truthy_def Let_def)
    with r(1) show ?thesis by blast
  qed
qed

lemma interact_chat:
  assumes "generated_plan st = Some plan" and "truthy plan"
  shows "session (interact client st w) = initial_session
    \<or> session (interact client st w) = st\<lparr>chat_history := seed_history plan (chat_history st)\<rparr>
    \<or> (\<exists>reply. session (interact client st w) =
          \<lparr>generated_plan = reply,
           chat_history = seed_history plan (chat_history st)
             @ [\<lparr>role = User, content = Some (user_input w)\<rparr>, \<lparr>role = Assistant, content = reply\<rparr>]\<rparr>)"
proof (cases "clicked w = Some Create_New_Plan")
  case True
  with assms(1) have "chat_view client plan st w =
      \<lparr>session = initial_session, requests = [], displayed = [], rerun = True,
       aborted = False\<rparr>"
    by (simp add: chat_view_def Let_def initial_session_def download_raises_def)
  with assms have "session (interact client st w) = initial_session"
    by (simp add: interact_def main_chat main_no_button initial_session_def)
  then show ?thesis by simp
next
  case False
  show ?thesis
  proof (cases "clicked w = Some Send \<and> truthy (user_input w)")
    case True
    with send_effect [OF assms, of w client] show ?thesis by simp
  next
    case no_send: False
    with False assms(1) have "chat_view client plan st w =
      \<lparr>session = st\<lparr>chat_history := seed_history plan (chat_history st)\<rparr>,
       requests = [], displayed = [], rerun = False, aborted = False\<rparr>"
      by (auto simp: chat_view_def Let_def download_raises_def)
    with assms show ?thesis
      by (simp add: interact_def main_chat)
  qed
qed

text \<open>The invariant holds initially and every interaction keeps it.\<close>

lemma session_invariant_initial: "session_invariant initial_session"
  by (simp add: session_invariant_def initial_session_def)

lemma session_invariant_interact:
  assumes "session_invariant st"
  shows "session_invariant (session (interact client st w))"
proof (cases "phase st")
  case Composing
  from interact_form [OF Composing, of client w] show ?thesis
  proof
    assume "session (interact client st w) = st"
    with assms show ?thesis by simp
  next
    assume "\<exists>reply. reply \<noteq> [] \<and> session (interact client st w) =
         \<lparr>generated_plan = Some reply, chat_history = seed_history reply (chat_history st)\<rparr>"
    then obtain reply where r: "reply \<noteq> []" "session (interact client st w) =
         \<lparr>generated_plan = Some reply, chat_history = seed_history reply (chat_history st)\<rparr>"
      by blast
    from Composing have "\<not> truthy_opt (generated_plan st)"
      by (simp add: phase_def split: if_splits)
    with assms r show ?thesis
      by (auto simp: session_invariant_def seed_history_def truthy_def split: list.splits)
  qed
next
  case Refining
  then obtain plan where p: "generated_plan st = Some plan" "truthy plan"
    by (cases "generated_plan st") (auto simp: phase_def split: if_splits)
  with assms have ne: "chat_history st \<noteq> []"
    by (auto simp: session_invariant_def)
  then have s: "seed_history plan (chat_history st) = chat_history st"
    by (simp add: seed_history_def)
  from interact_chat [OF p, of client w] s assms ne show ?thesis
    by (auto simp: session_invariant_def initial_session_def split: list.splits)
qed

lemma session_invariant_run:
  "session_invariant st \<Longrightarrow> session_invariant (run_session st es)"
  by (induction es arbitrary: st) (auto simp: session_invariant_interact)

lemma run_session_append:
  "run_session st (es @ fs) = run_session (run_session st es) fs"
  by (induction es arbitrary: st) auto

text \<open>An interaction that leaves a non-empty history non-empty leaves its first entry in place.\<close>

lemma first_entry_kept:
  assumes "session_invariant st" and "chat_history st \<noteq> []"
    and "chat_history (session (interact client st w)) \<noteq> []"
  shows "hd (chat_history (session (interact client st w))) = hd (chat_history st)"
proof (cases "phase st")
  case Composing
  from interact_form [OF Composing, of client w] assms(2) show ?thesis
    by (auto simp: seed_history_def)
next
  case Refining
  then obtain plan where p: "generated_plan st = Some plan" "truthy plan"
    by (cases "generated_plan st") (auto simp: phase_def split: if_splits)
  from interact_chat [OF p, of client w] assms(2,3) show ?thesis
    by (auto simp: seed_history_def initial_session_def)
qed

text \<open>
  On the form, an interaction that changes the session is a Generate that the service
  answered with a non-empty text.
\<close>

lemma interact_form_origin:
  assumes "phase st = Composing" and "session (interact client st w) \<noteq> st"
  shows "clicked w = Some Generate_Lesson_Plan
    \<and> (\<exists>reply. reply \<noteq> [] \<and> client (form_request w) = Returned (Some reply)
          \<and> session (interact client st w) =
              \<lparr>generated_plan = Some reply, chat_history = seed_history reply (chat_history st)\<rparr>)"
proof -
  from assms(1) have m: "main client st w = form_view client st w"
    by (intro main_form) (simp add: phase_def split: if_splits)
  have quiet: "session (interact client st w) = st"
    if "session (form_view client st w) = st" "\<not> rerun (form_view client st w)"
    using that m by (simp add: interact_def)
  have c: "clicked w = Some Generate_Lesson_Plan"
  proof (rule ccontr)
    assume "clicked w \<noteq> Some Generate_Lesson_Plan"
    then have "session (form_view client st w) = st" "\<not> rerun (form_view client st w)"
      by (simp_all add: form_view_def)
    with quiet assms(2) show False by simp
  qed
  have f: "enquiry_question w \<noteq> []" "objectives w \<noteq> []" "active_learning w \<noteq> []"
    "adaptive_practices w \<noteq> []"
  proof -
    have "list_all truthy [enquiry_question w, objectives w, active_learning w, adaptive_practices w]"
    proof (rule ccontr)
      assume "\<not> list_all truthy [enquiry_question w, objectives w, active_learning w, adaptive_practices w]"
      with c have "session (form_view client st w) = st" "\<not> rerun (form_view client st w)"
        by (simp_all add: form_view_def)
      with quiet assms(2) show False by simp
    qed
    then show "enquiry_question w \<noteq> []" "objectives w \<noteq> []" "active_learning w \<noteq> []"
      "adaptive_practices w \<noteq> []"
      by (simp_all add: truthy_def)
  qed
  have "\<exists>reply. reply \<noteq> [] \<and> client (form_request w) = Returned (Some reply)"
  proof (rule ccontr)
    assume n: "\<not> (\<exists>reply. reply \<noteq> [] \<and> client (form_request w) = Returned (Some reply))"
    have "\<not> truthy_opt (returned (generate_lesson_plan_with_openai client (enquiry_question w)
        (year_group_label (year_group w)) (num_lessons w) (objectives w)
        (active_learning w) (adaptive_practices w)))"
    proof (cases "client (form_request w)")
      case (Returned x)
      with n show ?thesis
        by (cases x) (auto simp: generate_lesson_plan_with_openai_def form_request_def truthy_def)
    next
      case (Raised e)
      then show ?thesis
        by (simp add: generate_lesson_plan_with_openai_def form_request_def)
    qed
    then have "session (form_view client st w) = st" "\<not> rerun (form_view client st w)"
      by (simp_all add: form_view_def Let_def)
    with quiet assms(2) show False by simp
  qed
  then obtain reply where r: "reply \<noteq> []" "client (form_request w) = Returned (Some reply)"
    by blast
  from generate_effect [where client = client and st = st and w = w and reply = reply]
    assms(1) c f r
  have "session (interact client st w) =
      \<lparr>generated_plan = Some reply, chat_history = seed_history reply (chat_history st)\<rparr>"
    by simp
  with c r show ?thesis by blast
qed

text \<open>The first entry of a history is a text that a generation of the session returned.\<close>

lemma seed_origin:
  "chat_history (run_session initial_session es) \<noteq> [] \<Longrightarrow>
     \<exists>(client, w) \<in> set es. clicked w = Some Generate_Lesson_Plan
       \<and> client (form_request w) = Returned (content (hd (chat_history (run_session initial_session es))))"
proof (induction es rule: rev_induct)
  case Nil
  then show ?case by (simp add: initial_session_def)
next
  case (snoc e es)
  obtain client w where e: "e = (client, w)" by (cases e)
  let ?st = "run_session initial_session es"
  have k: "run_session initial_session (es @ [e]) = session (interact client ?st w)"
    by (simp add: run_session_append e)
  have inv: "session_invariant ?st"
    by (simp add: session_invariant_initial session_invariant_run)
  show ?case
  proof (cases "chat_history ?st = []")
    case True
    with inv have "generated_plan ?st = None"
      by (simp add: session_invariant_def)
    then have ph: "phase ?st = Composing" by (simp add: phase_def)
    from snoc.prems k True have "session (interact client ?st w) \<noteq> ?st" by auto
    from interact_form_origin [OF ph this] True obtain reply where
      "clicked w = Some Generate_Lesson_Plan" "client (form_request w) = Returned (Some reply)"
      "session (interact client ?st w) =
         \<lparr>generated_plan = Some reply, chat_history = [\<lparr>role = Assistant, content = Some reply\<rparr>]\<rparr>"
      by (auto simp: seed_history_def)
    with k e show ?thesis by simp
  next
    case False
    from snoc.prems k have "chat_history (session (interact client ?st w)) \<noteq> []" by simp
    from first_entry_kept [OF inv False this] k
    have "hd (chat_history (run_session initial_session (es @ [e]))) = hd (chat_history ?st)"
      by simp
    with snoc.IH [OF False] show ?thesis by auto
  qed
qed

text \<open>
  After a generation and one successful refinement the first entry still holds the
  generated text, while the plan is the refined one.
\<close>

theorem first_entry_is_seed_counterexample:
  "run_session initial_session
     [(stub ''DRAFT'', press_generate), (stub ''REVISED'', press_send ''simplify lesson two'')] =
     \<lparr>generated_plan = Some ''REVISED'',
      chat_history = [\<lparr>role = Assistant, content = Some ''DRAFT''\<rparr>,
                      \<lparr>role = User, content = Some ''simplify lesson two''\<rparr>,
                      \<lparr>role = Assistant, content = Some ''REVISED''\<rparr>]\<rparr>
   \<and> content (hd (chat_history (run_session initial_session
         [(stub ''DRAFT'', press_generate), (stub ''REVISED'', press_send ''simplify lesson two'')])))
       \<noteq> generated_plan (run_session initial_session
         [(stub ''DRAFT'', press_generate), (stub ''REVISED'', press_send ''simplify lesson two'')])"
  by (simp add: script_defs input_defs)

text \<open>
  C6. In every session state reached from the initial one whose history is not empty,
  the first entry that is not a system message is the first entry of the history, and it
  is an assistant message with a non-empty text, a text that the service returned to a
  Generate of the session. It is \<^verbatim>\<open>generated_plan\<close> while the history has one entry, and
  it is still the first entry after a further interaction that leaves the history
  non-empty.
\<close>

theorem first_entry_is_seed:
  assumes "st = run_session initial_session es" and "chat_history st \<noteq> []"
  shows "find (\<lambda>m. role m \<noteq> System) (chat_history st) = Some (hd (chat_history st))
    \<and> role (hd (chat_history st)) = Assistant
    \<and> (\<exists>plan. content (hd (chat_history st)) = Some plan \<and> plan \<noteq> [])
    \<and> (\<exists>(c, g) \<in> set es. clicked g = Some Generate_Lesson_Plan
          \<and> c (form_request g) = Returned (content (hd (chat_history st))))
    \<and> (length (chat_history st) = 1 \<longrightarrow> generated_plan st = content (hd (chat_history st)))
    \<and> (chat_history (run_session initial_session (es @ [(client, w)])) \<noteq> [] \<longrightarrow>
          hd (chat_history (run_session initial_session (es @ [(client, w)]))) = hd (chat_history st))"
proof -
  from assms(1) have inv: "session_invariant st"
    by (simp add: session_invariant_initial session_invariant_run)
  from assms(2) obtain m ms where h: "chat_history st = m # ms"
    by (cases "chat_history st") auto
  with inv have m: "role m = Assistant" "truthy_opt (content m)"
    "ms = [] \<longrightarrow> generated_plan st = content m"
    by (simp_all add: session_invariant_def)
  from m(2) have c: "\<exists>plan. content m = Some plan \<and> plan \<noteq> []"
    by (cases "content m") (simp_all add: truthy_def)
  have k: "run_session initial_session (es @ [(client, w)]) = session (interact client st w)"
    by (simp add: run_session_append assms(1))
  from first_entry_kept [OF inv assms(2), of client w] k
  have "chat_history (run_session initial_session (es @ [(client, w)])) \<noteq> [] \<longrightarrow>
          hd (chat_history (run_session initial_session (es @ [(client, w)]))) = hd (chat_history st)"
    by simp
  moreover from seed_origin [of es] assms
  have "\<exists>(c, g) \<in> set es. clicked g = Some Generate_Lesson_Plan
          \<and> c (form_request g) = Returned (content (hd (chat_history st)))"
    by simp
  ultimately show ?thesis using h m c by simp
qed

theorem first_entry_is_seed_witness:
  "chat_history (run_session initial_session [(stub ''PLAN_V1'', press_generate)]) \<noteq> []
   \<and> hd (chat_history (run_session initial_session [(stub ''PLAN_V1'', press_generate)])) =
       \<lparr>role = Assistant, content = Some ''PLAN_V1''\<rparr>
   \<and> generated_plan (run_session initial_session [(stub ''PLAN_V1'', press_generate)]) =
       Some ''PLAN_V1''
   \<and> hd (chat_history (run_session initial_session
         ([(stub ''PLAN_V1'', press_generate)] @ [(stub ''PLAN_V2'', press_send ''add more group work'')]))) =
       \<lparr>role = Assistant, content = Some ''PLAN_V1''\<rparr>"
proof -
  have a: "chat_history (run_session initial_session [(stub ''PLAN_V1'', press_generate)]) \<noteq> []"
    by (simp add: script_defs input_defs)
  from first_entry_is_seed [OF refl a, of "stub ''PLAN_V2''" "press_send ''add more group work''"] a
  show ?thesis
    by (simp add: script_defs input_defs)
qed

text \<open>
  C10. In every session state reached from the initial one that shows the chat, pressing
  Send with an empty message changes nothing: the session state is the same, so nothing
  is appended and the plan is as before, and no request is sent.
\<close>

theorem empty_send_is_noop:
  assumes "st = run_session initial_session es" and "phase st = Refining"
    and "clicked w = Some Send" and "user_input w = []"
  shows "interact client st w = \<lparr>session = st, requests = [], displayed = [],
   rerun = False, aborted = False\<rparr>"
proof -
  from assms(1) have inv: "session_invariant st"
    by (simp add: session_invariant_initial session_invariant_run)
  from assms(2) obtain plan where p: "generated_plan st = Some plan" "truthy plan"
    by (cases "generated_plan st") (auto simp: phase_def split: if_splits)
  with inv have ne: "chat_history st \<noteq> []"
    by (auto simp: session_invariant_def)
  with assms(3,4) p(1) have "chat_view client plan st w =
      \<lparr>session = st, requests = [], displayed = [], rerun = False, aborted = False\<rparr>"
    by (simp add: chat_view_def Let_def seed_history_def truthy_def download_raises_def)
  with p show ?thesis
    by (simp add: interact_def main_chat)
qed

theorem empty_send_is_noop_witness:
  "phase (run_session initial_session [(stub ''PLAN_V1'', press_generate)]) = Refining
   \<and> interact (failing ''unreachable'')
        (run_session initial_session [(stub ''PLAN_V1'', press_generate)]) (press_send []) =
       \<lparr>session = run_session initial_session [(stub ''PLAN_V1'', press_generate)],
        requests = [], displayed = [], rerun = False, aborted = False\<rparr>"
proof -
  have a: "phase (run_session initial_session [(stub ''PLAN_V1'', press_generate)]) = Refining"
    by (simp add: phase_def script_defs input_defs)
  have b: "clicked (press_send []) = Some Send" "user_input (press_send []) = []"
    by (simp_all add: press_send_def)
  from empty_send_is_noop [OF refl a b, of "failing ''unreachable''"] a show ?thesis
    by simp
qed

section \<open>The parameters of the calls\<close>

lemma calls_generate:
  "calls (generate_lesson_plan_with_openai client q y n ob ac ad) = [generation_request q y n ob ac ad]"
  by (cases "client (generation_request q y n ob ac ad)")
     (simp_all add: generate_lesson_plan_with_openai_def)

lemma calls_refine:
  "calls (refine_lesson_plan_with_openai client p u) = [refinement_request p u]"
  by (cases "client (refinement_request p u)")
     (simp_all add: refine_lesson_plan_with_openai_def)

lemma calls_chat:
  "calls (get_chat_response client h u) = [chat_request h u]"
  by (cases "client (chat_request h u)")
     (simp_all add: get_chat_response_def)

lemma requests_main:
  "list_all (\<lambda>r. temperature r = 0.7 \<and> max_tokens r = 4000) (requests (main client st w))"
  by (cases "generated_plan st")
     (simp_all add: main_def form_view_def chat_view_def Let_def calls_generate calls_refine
        download_raises_def
        generation_request_def refinement_request_def)

text \<open>
  A message sent in the chat is answered by the refinement call, at temperature 0.7 and
  4000 tokens, not at 0.5 and 2000.
\<close>

theorem completion_parameters_counterexample:
  "clicked (press_send ''make it fun'') = Some Send
   \<and> map temperature (requests (interact (stub ''PLAN_V2'')
      \<lparr>generated_plan = Some ''PLAN_V1'',
       chat_history = [\<lparr>role = Assistant, content = Some ''PLAN_V1''\<rparr>]\<rparr>
      (press_send ''make it fun''))) = [7 / 10]
   \<and> map max_tokens (requests (interact (stub ''PLAN_V2'')
      \<lparr>generated_plan = Some ''PLAN_V1'',
       chat_history = [\<lparr>role = Assistant, content = Some ''PLAN_V1''\<rparr>]\<rparr>
      (press_send ''make it fun''))) = [4000]
   \<and> (7 / 10 :: rat) \<noteq> 1 / 2"
  by (simp add: script_defs input_defs refinement_request_def)

text \<open>
  C5. The generation call and the refinement call each send one request, at temperature
  0.7 with a ceiling of 4000 tokens; \<^verbatim>\<open>get_chat_response\<close> sends one request at temperature
  0.5 with the lower ceiling of 2000 tokens. These are constants. Every request that an
  interaction sends has the first shape: a message sent in the chat is answered by the
  refinement call, and nothing in the script calls \<^verbatim>\<open>get_chat_response\<close>.
\<close>

theorem completion_parameters:
  "calls (generate_lesson_plan_with_openai client q y n ob ac ad) = [generation_request q y n ob ac ad]
   \<and> temperature (generation_request q y n ob ac ad) = 0.7
   \<and> max_tokens (generation_request q y n ob ac ad) = 4000
   \<and> calls (refine_lesson_plan_with_openai client p u) = [refinement_request p u]
   \<and> temperature (refinement_request p u) = 0.7
   \<and> max_tokens (refinement_request p u) = 4000
   \<and> calls (get_chat_response client h u) = [chat_request h u]
   \<and> temperature (chat_request h u) = 0.5
   \<and> max_tokens (chat_request h u) = 2000
   \<and> list_all (\<lambda>r. temperature r = 0.7 \<and> max_tokens r = 4000) (requests (interact client st w))
   \<and> (generated_plan st = Some plan \<and> plan \<noteq> [] \<and> clicked w = Some Send \<and> user_input w \<noteq> []
        \<longrightarrow> requests (interact client st w) = [refinement_request plan (user_input w)])"
proof -
  have a: "list_all (\<lambda>r. temperature r = 0.7 \<and> max_tokens r = 4000) (requests (interact client st w))"
    using requests_main [of client st w]
      requests_main [of client "session (main client st w)" "w\<lparr>clicked := None\<rparr>"]
    by (simp add: interact_def Let_def)
  have b: "requests (interact client st w) = [refinement_request plan (user_input w)]"
    if "generated_plan st = Some plan" "plan \<noteq> []" "clicked w = Some Send" "user_input w \<noteq> []"
    using send_effect [of st plan w client] that
    by (simp add: truthy_def calls_refine)
  have c: "temperature (generation_request q y n ob ac ad) = 0.7"
    "max_tokens (generation_request q y n ob ac ad) = 4000"
    by (simp_all add: generation_request_def)
  have d: "temperature (refinement_request p u) = 0.7" "max_tokens (refinement_request p u) = 4000"
    by (simp_all add: refinement_request_def)
  have e: "temperature (chat_request h u) = 0.5" "max_tokens (chat_request h u) = 2000"
    by (simp_all add: chat_request_def)
  from a b c d e show ?thesis
    by (simp add: calls_generate calls_refine calls_chat)
qed

theorem completion_parameters_witness:
  "requests (interact (stub ''PLAN_V2'')
      \<lparr>generated_plan = Some ''PLAN_V1'',
       chat_history = [\<lparr>role = Assistant, content = Some ''PLAN_V1''\<rparr>]\<rparr>
      (press_send ''add more group work'')) = [refinement_request ''PLAN_V1'' ''add more group work'']
   \<and> temperature (refinement_request ''PLAN_V1'' ''add more group work'') = 0.7
   \<and> max_tokens (refinement_request ''PLAN_V1'' ''add more group work'') = 4000
   \<and> temperature (chat_request [] ''add more group work'') = 0.5
   \<and> max_tokens (chat_request [] ''add more group work'') = 2000"
  using completion_parameters [where st = "\<lparr>generated_plan = Some ''PLAN_V1'',
       chat_history = [\<lparr>role = Assistant, content = Some ''PLAN_V1''\<rparr>]\<rparr>"
     and w = "press_send ''add more group work''" and plan = "''PLAN_V1''"
     and client = "stub ''PLAN_V2''" and p = "''PLAN_V1''" and u = "''add more group work''"
     and h = "[]"]
  by (simp add: press_send_def)

end
